theory Spec2Isabelle
  imports Complex_Main
begin

section \<open>Shield Web Guard: the URL threat classifier and the scan history\<close>

text \<open>
  The program is the single component \<open>App\<close> of \<open>src/App.tsx\<close>. Its logic is the
  function \<open>performSecurityChecks\<close>, the handler \<open>scanUrl\<close> that wraps it in a
  try/catch and pushes the result into the history, the handler \<open>clearHistory\<close>, the
  lazy initialiser of the history state and the effect that persists the history.

  A JavaScript string is a sequence of code units; it is modelled as a \<^typ>\<open>string\<close>,
  one \<^typ>\<open>char\<close> for each code unit, so that \<open>url.length\<close> is \<^const>\<open>length\<close>.
\<close>

subsection \<open>Data model\<close>

text \<open>
  The interface \<open>ScanResult\<close>. An optional field is an \<^typ>\<open>'a option\<close>: \<open>None\<close> is
  the field that is missing or \<open>undefined\<close>. The nested object types have no name in
  the source; they are named after their fields here.
\<close>

record certificates =
  valid :: bool
  issuer :: "string option"
  expiryDate :: "string option"

record details =
  protocol :: string
  domain :: string
  responseTime :: real
  certificates :: "certificates option"

record ScanResult =
  url :: string
  timestamp :: int
  safe :: bool
  threats :: "string list"
  details :: details

subsection \<open>The platform\<close>

text \<open>
  What the browser supplies and the repository does not contain is a parameter of the
  model. \<open>URL_protocol\<close> and \<open>URL_hostname\<close> are the two properties of a \<open>URL\<close> object
  that the program reads.
\<close>

record URL =
  URL_protocol :: string
  URL_hostname :: string

text \<open>
  \<^item> \<open>newURL s\<close> is \<open>new URL(s)\<close>; \<open>None\<close> is the \<open>TypeError\<close> it throws on a string that
    does not parse;
  \<^item> \<open>mathRandom\<close> is the value drawn by \<open>Math.random()\<close>;
  \<^item> \<open>dateNow\<close> is the value of \<open>Date.now()\<close>;
  \<^item> \<open>formatNextYear\<close> is the text of
    \<open>format(new Date().setFullYear(new Date().getFullYear() + 1), 'yyyy-MM-dd')\<close>;
  \<^item> \<open>stringifyResult r\<close> is the JSON text of one scan result;
  \<^item> \<open>jsonParse s\<close> is \<open>JSON.parse(s)\<close> when that is an array of scan results; \<open>None\<close>
    is the \<open>SyntaxError\<close> it throws, or a value that is no such array.
\<close>

record platform =
  newURL :: "string \<Rightarrow> URL option"
  mathRandom :: real
  dateNow :: int
  formatNextYear :: string
  stringifyResult :: "ScanResult \<Rightarrow> string"
  jsonParse :: "string \<Rightarrow> ScanResult list option"

subsection \<open>String and array methods\<close>

definition startsWith :: "string \<Rightarrow> string \<Rightarrow> bool" where
  "startsWith s p = (take (length p) s = p)"

definition endsWith :: "string \<Rightarrow> string \<Rightarrow> bool" where
  "endsWith s p = (length p \<le> length s \<and> drop (length s - length p) s = p)"

fun includes_str :: "string \<Rightarrow> string \<Rightarrow> bool" where
  "includes_str [] p = (p = [])"
| "includes_str (c # s) p = (startsWith (c # s) p \<or> includes_str s p)"

fun some :: "'a list \<Rightarrow> ('a \<Rightarrow> bool) \<Rightarrow> bool" where
  "some [] f = False"
| "some (x # xs) f = (f x \<or> some xs f)"

definition push :: "'a list \<Rightarrow> 'a \<Rightarrow> 'a list" where
  "push xs x = xs @ [x]"

text \<open>\<open>xs.slice(a, b)\<close> for indices that are not negative.\<close>

definition slice :: "'a list \<Rightarrow> nat \<Rightarrow> nat \<Rightarrow> 'a list" where
  "slice xs a b = take (b - a) (drop a xs)"

text \<open>
  The regular expression \<open>/[<>'"%;()&+]/\<close> is one character class: \<open>test\<close> holds when
  some code unit of the string is in the class.
\<close>

definition specialChars :: "char list" where
  "specialChars = [CHR ''<'', CHR ''>'', CHR 0x27, CHR 0x22, CHR ''%'', CHR '';'',
                   CHR ''('', CHR '')'', CHR ''&'', CHR ''+'']"

definition regexTest :: "string \<Rightarrow> bool" where
  "regexTest s = some s (\<lambda>c. List.member specialChars c)"

subsection \<open>The classifier\<close>

definition suspiciousTLDs :: "string list" where
  "suspiciousTLDs = [''.xyz'', ''.tk'', ''.ml'', ''.ga'', ''.cf'']"

text \<open>
  \<open>performSecurityChecks\<close>: the constructor of \<open>URL\<close> runs first and may throw; then the
  five checks run one after the other, each pushing its label onto \<open>threats\<close>.
\<close>

definition performSecurityChecks :: "platform \<Rightarrow> string \<Rightarrow> (string list \<times> details) option" where
  "performSecurityChecks p s =
     (case newURL p s of
        None \<Rightarrow> None
      | Some urlObj \<Rightarrow>
          let threats0 = [];
              threats1 = (if \<not> startsWith s ''https://''
                          then push threats0 ''Insecure connection (non-HTTPS)'' else threats0);
              threats2 = (if includes_str s ''malware'' \<or> includes_str s ''virus''
                          then push threats1 ''Potential malware detected'' else threats1);
              threats3 = (if some suspiciousTLDs (\<lambda>tld. endsWith s tld)
                          then push threats2 ''Suspicious top-level domain detected'' else threats2);
              threats4 = (if length s > 100
                          then push threats3 ''Unusually long URL detected'' else threats3);
              threats5 = (if regexTest s
                          then push threats4 ''Suspicious special characters detected'' else threats4)
          in Some (threats5,
                   \<lparr>protocol = URL_protocol urlObj,
                    domain = URL_hostname urlObj,
                    responseTime = mathRandom p * 100 + 50,
                    certificates =
                      (if startsWith s ''https://''
                       then Some \<lparr>valid = True, issuer = Some ''DigiCert Inc'',
                                  expiryDate = Some (formatNextYear p)\<rparr>
                       else None)\<rparr>))"

subsection \<open>The component state and the local store\<close>

text \<open>
  The five state variables of \<open>App\<close> and the browser's \<open>localStorage\<close>. The state
  variable \<open>url\<close> is the field \<open>urlState\<close> (the name \<open>url\<close> is the field of
  \<open>ScanResult\<close>).

  The persistence effect has the dependency list \<open>[history]\<close>: after a render it runs
  when the array object held by \<open>history\<close> is not the object of the previous render
  (\<open>Object.is\<close>), and it always runs after the first render. Object identity is the
  field \<open>historyFresh\<close>: it holds when \<open>history\<close> is an array object that the effect has
  not seen yet.
\<close>

record App =
  urlState :: string
  scanning :: bool
  result :: "ScanResult option"
  history :: "ScanResult list"
  showHistory :: bool
  historyFresh :: bool
  localStorage :: "string \<rightharpoonup> string"

fun join :: "string list \<Rightarrow> string \<Rightarrow> string" where
  "join [] sep = []"
| "join [x] sep = x"
| "join (x # y # xs) sep = x @ sep @ join (y # xs) sep"

text \<open>\<open>JSON.stringify\<close> of an array: the elements' texts between brackets, comma-separated.\<close>

definition JSON_stringify :: "platform \<Rightarrow> ScanResult list \<Rightarrow> string" where
  "JSON_stringify p h = ''['' @ join (map (stringifyResult p) h) '','' @ '']''"

text \<open>
  The lazy initialiser of \<open>history\<close> and the initial values of the other state
  variables. \<open>saved ? JSON.parse(saved) : []\<close>: the empty string is falsy, like \<open>null\<close>.
  \<open>None\<close> is the mount that loads no list of results: \<open>JSON.parse\<close> throws, or yields a
  value that is no array of results; what the component does with such a value is not
  modelled. The array that is loaded is taken as it is, whatever its length.
\<close>

definition mount :: "platform \<Rightarrow> (string \<rightharpoonup> string) \<Rightarrow> App option" where
  "mount p store =
     (case (case store ''scan-history'' of
              None \<Rightarrow> Some []
            | Some saved \<Rightarrow> if saved \<noteq> [] then jsonParse p saved else Some []) of
        None \<Rightarrow> None
      | Some h \<Rightarrow>
          Some \<lparr>urlState = [], scanning = False, result = None, history = h,
                showHistory = False, historyFresh = True, localStorage = store\<rparr>)"

text \<open>The body of the effect, and the commit after a render, which runs it when it is due.\<close>

definition persistEffect :: "platform \<Rightarrow> App \<Rightarrow> App" where
  "persistEffect p st =
     st\<lparr>localStorage := (localStorage st)(''scan-history'' \<mapsto> JSON_stringify p (history st))\<rparr>"

definition commit :: "platform \<Rightarrow> App \<Rightarrow> App" where
  "commit p st = (if historyFresh st then (persistEffect p st)\<lparr>historyFresh := False\<rparr> else st)"

text \<open>
  \<open>setHistory\<close> with an updater. Both updaters of the source build a new array (an array
  literal, the result of \<open>slice\<close>), so the state holds a fresh object afterwards.
\<close>

definition setHistory :: "(ScanResult list \<Rightarrow> ScanResult list) \<Rightarrow> App \<Rightarrow> App" where
  "setHistory f st = st\<lparr>history := f (history st), historyFresh := True\<rparr>"

definition setUrl :: "string \<Rightarrow> App \<Rightarrow> App" where
  "setUrl s st = st\<lparr>urlState := s\<rparr>"

definition toggleHistory :: "App \<Rightarrow> App" where
  "toggleHistory st = st\<lparr>showHistory := \<not> showHistory st\<rparr>"

subsection \<open>The handlers\<close>

text \<open>
  \<open>scanUrl\<close> is asynchronous: it sets \<open>scanning\<close>, waits, and resumes with the \<open>url\<close> of
  the render in which it was started. \<open>scanUrl_start\<close> is the part before the wait,
  \<open>scanUrl_resume\<close> the part after it, given the captured \<open>url\<close>; \<open>scanUrl\<close> is the two
  with nothing in between. The \<open>catch\<close> branch is the case \<open>None\<close>: the constructor of
  \<open>URL\<close> is the one call in the \<open>try\<close> block that throws.
\<close>

definition historyUpdate :: "ScanResult \<Rightarrow> ScanResult list \<Rightarrow> ScanResult list" where
  "historyUpdate scanResult prev = slice (scanResult # prev) 0 10"

definition scanUrl_start :: "App \<Rightarrow> App" where
  "scanUrl_start st = st\<lparr>scanning := True\<rparr>"

definition scanUrl_resume :: "platform \<Rightarrow> string \<Rightarrow> App \<Rightarrow> App" where
  "scanUrl_resume p s st =
     (case performSecurityChecks p s of
        Some (ts, d) \<Rightarrow>
          let scanResult = \<lparr>url = s, timestamp = dateNow p, safe = (length ts = 0),
                            threats = ts, details = d\<rparr>
          in setHistory (historyUpdate scanResult) (st\<lparr>result := Some scanResult\<rparr>)
      | None \<Rightarrow>
          st\<lparr>result := Some \<lparr>url = s, timestamp = dateNow p, safe = False,
                              threats = [''Invalid URL format''],
                              details = \<lparr>protocol = ''unknown'', domain = ''unknown'',
                                         responseTime = 0, certificates = None\<rparr>\<rparr>\<rparr>)
     \<lparr>scanning := False\<rparr>"

definition scanUrl :: "platform \<Rightarrow> App \<Rightarrow> App" where
  "scanUrl p st = scanUrl_resume p (urlState st) (scanUrl_start st)"

definition clearHistory :: "App \<Rightarrow> App" where
  "clearHistory st =
     (let st1 = setHistory (\<lambda>prev. []) st
      in st1\<lparr>localStorage := (localStorage st1)(''scan-history'' := None)\<rparr>)"

text \<open>
  The states of a fresh session, one that starts on a store without the key: the mount
  and its commit, then any handler followed by the commit of the render it causes. A
  resumed scan may carry any captured \<open>url\<close>, and the platform's values may differ at each
  step.
\<close>

inductive reachable :: "App \<Rightarrow> bool" where
  init: "store ''scan-history'' = None \<Longrightarrow> mount p store = Some st \<Longrightarrow> reachable (commit p st)"
| typed: "reachable st \<Longrightarrow> reachable (commit p (setUrl s st))"
| toggled: "reachable st \<Longrightarrow> reachable (commit p (toggleHistory st))"
| started: "reachable st \<Longrightarrow> reachable (commit p (scanUrl_start st))"
| resumed: "reachable st \<Longrightarrow> reachable (commit p (scanUrl_resume p s st))"
| cleared: "reachable st \<Longrightarrow> reachable (commit p (clearHistory st))"

text \<open>
  The states of any session, given the state \<open>st0\<close> in which the component has mounted,
  whatever the store held: the commit of the mount, then the same steps.
\<close>

inductive reachableFrom :: "App \<Rightarrow> App \<Rightarrow> bool" where
  mounted: "reachableFrom st0 (commit p st0)"
| typed: "reachableFrom st0 st \<Longrightarrow> reachableFrom st0 (commit p (setUrl s st))"
| toggled: "reachableFrom st0 st \<Longrightarrow> reachableFrom st0 (commit p (toggleHistory st))"
| started: "reachableFrom st0 st \<Longrightarrow> reachableFrom st0 (commit p (scanUrl_start st))"
| resumed: "reachableFrom st0 st \<Longrightarrow> reachableFrom st0 (commit p (scanUrl_resume p s st))"
| cleared: "reachableFrom st0 st \<Longrightarrow> reachableFrom st0 (commit p (clearHistory st))"

subsection \<open>Sample values of the platform\<close>

text \<open>
  A sample of the browser's \<open>URL\<close> constructor. It agrees with the browser on the four
  addresses it lists and on \<open>not a url\<close>, which has no scheme and makes the constructor
  throw. On any other string it fails too, without regard to the browser; no theorem
  reads it there.
\<close>

definition exampleURL :: "string \<Rightarrow> URL option" where
  "exampleURL s =
     (if s = ''http://example.xyz''
        then Some \<lparr>URL_protocol = ''http:'', URL_hostname = ''example.xyz''\<rparr>
      else if s = ''https://example.com''
        then Some \<lparr>URL_protocol = ''https:'', URL_hostname = ''example.com''\<rparr>
      else if s = ''http://example.xyz/''
        then Some \<lparr>URL_protocol = ''http:'', URL_hostname = ''example.xyz''\<rparr>
      else if s = ''http://example.xyz/a.tk''
        then Some \<lparr>URL_protocol = ''http:'', URL_hostname = ''example.xyz''\<rparr>
      else None)"

text \<open>
  A sample platform for the examples. The random draw, the clock and the expiry text are
  arbitrary values; the JSON text of a single result is abbreviated to \<open>{}\<close>.
\<close>

definition examplePlatform :: platform where
  "examplePlatform =
     \<lparr>newURL = exampleURL, mathRandom = 1 / 2, dateNow = 1700000000000,
      formatNextYear = ''2027-11-03'', stringifyResult = (\<lambda>r. ''{}''),
      jsonParse = (\<lambda>s. if s = ''[]'' then Some [] else None)\<rparr>"

text \<open>The state of the component after it has mounted on an empty store.\<close>

definition exampleApp :: App where
  "exampleApp =
     \<lparr>urlState = [], scanning = False, result = None, history = [],
      showHistory = False, historyFresh = True, localStorage = Map.empty\<rparr>"

subsection \<open>Auxiliary definitions\<close>

text \<open>A scan result is consistent when its flag agrees with its list of threats.\<close>

definition consistent :: "ScanResult \<Rightarrow> bool" where
  "consistent r = (safe r = (threats r = []))"

text \<open>
  The state after the address \<open>https://example.com\<close> has been typed and scanned in a
  fresh session.
\<close>

definition scannedApp :: App where
  "scannedApp =
     commit examplePlatform (scanUrl_resume examplePlatform ''https://example.com''
       (commit examplePlatform (scanUrl_start
         (commit examplePlatform (setUrl ''https://example.com''
           (commit examplePlatform exampleApp))))))"






section \<open>Auxiliary lemmas\<close>

lemma some_iff: "some xs f \<longleftrightarrow> (\<exists>x\<in>set xs. f x)"
  by (induction xs) auto

lemma slice_0: "slice xs 0 n = take n xs"
  by (simp add: slice_def)

lemma historyUpdate_take: "historyUpdate r prev = take 10 (r # prev)"
  by (simp add: historyUpdate_def slice_0)

lemma result_scanUrl_resume:
  "result (scanUrl_resume p s st) =
     (case performSecurityChecks p s of
        Some (ts, d) \<Rightarrow> Some \<lparr>url = s, timestamp = dateNow p, safe = (length ts = 0),
                               threats = ts, details = d\<rparr>
      | None \<Rightarrow> Some \<lparr>url = s, timestamp = dateNow p, safe = False,
                       threats = [''Invalid URL format''],
                       details = \<lparr>protocol = ''unknown'', domain = ''unknown'',
                                  responseTime = 0, certificates = None\<rparr>\<rparr>)"
  by (simp add: scanUrl_resume_def setHistory_def Let_def split: option.splits)

lemma history_scanUrl_resume:
  "history (scanUrl_resume p s st) =
     (case performSecurityChecks p s of
        Some (ts, d) \<Rightarrow> take 10 (\<lparr>url = s, timestamp = dateNow p, safe = (length ts = 0),
                               threats = ts, details = d\<rparr> # history st)
      | None \<Rightarrow> history st)"
  by (simp add: scanUrl_resume_def setHistory_def historyUpdate_take Let_def split: option.splits)

lemma consistent_scanUrl_resume:
  "\<exists>r. result (scanUrl_resume p s st) = Some r \<and> consistent r"
  by (simp add: result_scanUrl_resume consistent_def split: option.splits)

lemma history_commit [simp]: "history (commit p st) = history st"
  by (simp add: commit_def persistEffect_def)

lemma result_commit [simp]: "result (commit p st) = result st"
  by (simp add: commit_def persistEffect_def)

lemma history_clearHistory [simp]: "history (clearHistory st) = []"
  by (simp add: clearHistory_def setHistory_def)

lemma result_clearHistory [simp]: "result (clearHistory st) = result st"
  by (simp add: clearHistory_def setHistory_def)

lemma mount_fresh:
  "store ''scan-history'' = None \<Longrightarrow> mount p store = Some st \<Longrightarrow> history st = [] \<and> result st = None"
  by (auto simp: mount_def)

lemma reachable_consistent:
  "reachable st \<Longrightarrow>
     (\<forall>r. result st = Some r \<longrightarrow> consistent r) \<and> (\<forall>r\<in>set (history st). consistent r)"
proof (induction rule: reachable.induct)
  case (init store p st)
  then show ?case using mount_fresh by fastforce
next
  case (resumed st p s)
  have new: "\<forall>r. result (scanUrl_resume p s st) = Some r \<longrightarrow> consistent r"
    using consistent_scanUrl_resume [of p s st] by auto
  have old: "\<forall>r\<in>set (history (scanUrl_resume p s st)). consistent r"
  proof (cases "performSecurityChecks p s")
    case None
    then show ?thesis using resumed.IH by (simp add: history_scanUrl_resume)
  next
    case (Some a)
    obtain ts d where a: "a = (ts, d)" by (cases a)
    let ?r = "\<lparr>url = s, timestamp = dateNow p, safe = (length ts = 0), threats = ts, details = d\<rparr>"
    have "consistent ?r" by (simp add: consistent_def)
    moreover have "set (history (scanUrl_resume p s st)) \<subseteq> insert ?r (set (history st))"
      using Some a set_take_subset [of 10 "?r # history st"] by (simp add: history_scanUrl_resume)
    ultimately show ?thesis using resumed.IH by blast
  qed
  from new old show ?case by simp
qed (simp_all add: setUrl_def toggleHistory_def scanUrl_start_def)



lemma mount_example: "mount examplePlatform Map.empty = Some exampleApp"
  by (simp add: mount_def exampleApp_def)

lemma reachable_example: "reachable (commit examplePlatform exampleApp)"
  by (rule reachable.init [OF _ mount_example]) simp

lemma example_com_checks: "performSecurityChecks examplePlatform ''https://example.com'' = Some
     ([], \<lparr>protocol = ''https:'', domain = ''example.com'', responseTime = 100,
            certificates = Some \<lparr>valid = True, issuer = Some ''DigiCert Inc'',
                                  expiryDate = Some ''2027-11-03''\<rparr>\<rparr>)"
  by (simp add: performSecurityChecks_def examplePlatform_def exampleURL_def startsWith_def
      endsWith_def suspiciousTLDs_def regexTest_def specialChars_def push_def Let_def)

lemma examplePlatform_fields:
  "newURL examplePlatform = exampleURL"
  "mathRandom examplePlatform = 1 / 2"
  "dateNow examplePlatform = 1700000000000"
  "formatNextYear examplePlatform = ''2027-11-03''"
  "stringifyResult examplePlatform r = ''{}''"
  by (simp_all add: examplePlatform_def)

lemma reachable_scannedApp: "reachable scannedApp"
  unfolding scannedApp_def
  by (intro reachable.resumed reachable.started reachable.typed reachable_example)

lemma clearHistory_commit:
  "history (commit p (clearHistory st)) = []
   \<and> localStorage (clearHistory st) ''scan-history'' = None
   \<and> localStorage (commit p (clearHistory st)) ''scan-history'' = Some ''[]''"
  by (simp add: commit_def persistEffect_def clearHistory_def setHistory_def JSON_stringify_def
      Let_def)

lemma scannedApp_eval:
  "history scannedApp =
     [\<lparr>url = ''https://example.com'', timestamp = 1700000000000, safe = True, threats = [],
       details = \<lparr>protocol = ''https:'', domain = ''example.com'', responseTime = 100,
                  certificates = Some \<lparr>valid = True, issuer = Some ''DigiCert Inc'',
                                        expiryDate = Some ''2027-11-03''\<rparr>\<rparr>\<rparr>]
   \<and> result scannedApp =
     Some \<lparr>url = ''https://example.com'', timestamp = 1700000000000, safe = True, threats = [],
       details = \<lparr>protocol = ''https:'', domain = ''example.com'', responseTime = 100,
                  certificates = Some \<lparr>valid = True, issuer = Some ''DigiCert Inc'',
                                        expiryDate = Some ''2027-11-03''\<rparr>\<rparr>\<rparr>
   \<and> localStorage scannedApp ''scan-history'' = Some ''[{}]''"
  by (simp add: scannedApp_def history_scanUrl_resume result_scanUrl_resume example_com_checks
      commit_def persistEffect_def scanUrl_resume_def setHistory_def historyUpdate_take
      scanUrl_start_def setUrl_def exampleApp_def JSON_stringify_def examplePlatform_fields
      Let_def)









lemma reachable_reachableFrom:
  "reachable st \<Longrightarrow> \<exists>st0. history st0 = [] \<and> reachableFrom st0 st"
proof (induction rule: reachable.induct)
  case (init store p st)
  then show ?case using mount_fresh reachableFrom.mounted by blast
qed (blast intro: reachableFrom.intros)+





lemma suspiciousTLDs_set: "set suspiciousTLDs = {''.xyz'', ''.tk'', ''.ml'', ''.ga'', ''.cf''}"
  by (auto simp: suspiciousTLDs_def)

lemma performSecurityChecks_Some:
  assumes "newURL p s = Some u"
  shows "performSecurityChecks p s = Some
     ((if \<not> startsWith s ''https://'' then [''Insecure connection (non-HTTPS)''] else []) @
      (if includes_str s ''malware'' \<or> includes_str s ''virus''
       then [''Potential malware detected''] else []) @
      (if some suspiciousTLDs (\<lambda>tld. endsWith s tld)
       then [''Suspicious top-level domain detected''] else []) @
      (if length s > 100 then [''Unusually long URL detected''] else []) @
      (if regexTest s then [''Suspicious special characters detected''] else []),
      \<lparr>protocol = URL_protocol u, domain = URL_hostname u,
       responseTime = mathRandom p * 100 + 50,
       certificates = (if startsWith s ''https://''
                       then Some \<lparr>valid = True, issuer = Some ''DigiCert Inc'',
                                  expiryDate = Some (formatNextYear p)\<rparr>
                       else None)\<rparr>)"
  using assms by (simp add: performSecurityChecks_def push_def Let_def)

lemma insecure_mem:
  "performSecurityChecks p s = Some (ts, d) \<Longrightarrow>
   ''Insecure connection (non-HTTPS)'' \<in> set ts \<longleftrightarrow> \<not> startsWith s ''https://''"
  by (auto simp: performSecurityChecks_def push_def Let_def split: option.splits if_splits)

lemma malware_mem:
  "performSecurityChecks p s = Some (ts, d) \<Longrightarrow>
   ''Potential malware detected'' \<in> set ts \<longleftrightarrow> includes_str s ''malware'' \<or> includes_str s ''virus''"
  by (auto simp: performSecurityChecks_def push_def Let_def split: option.splits if_splits)

lemma tld_mem:
  "performSecurityChecks p s = Some (ts, d) \<Longrightarrow>
   ''Suspicious top-level domain detected'' \<in> set ts \<longleftrightarrow> some suspiciousTLDs (\<lambda>tld. endsWith s tld)"
  by (auto simp: performSecurityChecks_def push_def Let_def split: option.splits if_splits)

lemma long_mem:
  "performSecurityChecks p s = Some (ts, d) \<Longrightarrow>
   ''Unusually long URL detected'' \<in> set ts \<longleftrightarrow> length s > 100"
  by (auto simp: performSecurityChecks_def push_def Let_def split: option.splits if_splits)

lemma special_mem:
  "performSecurityChecks p s = Some (ts, d) \<Longrightarrow>
   ''Suspicious special characters detected'' \<in> set ts \<longleftrightarrow> regexTest s"
  by (auto simp: performSecurityChecks_def push_def Let_def split: option.splits if_splits)

lemma threats_scanUrl_resume:
  "performSecurityChecks p s = Some (ts, d) \<Longrightarrow>
   \<exists>r. result (scanUrl_resume p s st) = Some r \<and> threats r = ts \<and> details r = d
       \<and> safe r = (ts = []) \<and> url r = s"
  by (simp add: result_scanUrl_resume)

section \<open>The claims\<close>

text \<open>
  Claim C1. In every scan result that \<open>scanUrl\<close> produces, on the path where the string
  parses and on the path where it does not, \<open>safe\<close> is true if and only if \<open>threats\<close> is
  empty. The same holds for the result and for every history entry of every reachable
  state.
\<close>

theorem safe_iff_threats_empty:
  "(\<exists>r. result (scanUrl_resume p s st) = Some r \<and> (safe r \<longleftrightarrow> threats r = []))
   \<and> (\<exists>r. result (scanUrl p st) = Some r \<and> (safe r \<longleftrightarrow> threats r = []))
   \<and> (reachable st' \<longrightarrow>
        (\<forall>r. result st' = Some r \<longrightarrow> (safe r \<longleftrightarrow> threats r = []))
        \<and> (\<forall>r\<in>set (history st'). safe r \<longleftrightarrow> threats r = []))"
  using consistent_scanUrl_resume [of p s st]
    consistent_scanUrl_resume [of p "urlState st" "scanUrl_start st"]
    reachable_consistent [of st']
  unfolding consistent_def scanUrl_def by blast

theorem safe_iff_threats_empty_witness:
  "reachable scannedApp
   \<and> (\<exists>r. result (scanUrl_resume examplePlatform ''not a url'' scannedApp) = Some r
          \<and> (safe r \<longleftrightarrow> threats r = []))
   \<and> (\<exists>r. result (scanUrl examplePlatform scannedApp) = Some r \<and> (safe r \<longleftrightarrow> threats r = []))
   \<and> (\<exists>r. result scannedApp = Some r \<and> (safe r \<longleftrightarrow> threats r = []))
   \<and> (\<exists>r. history scannedApp = [r] \<and> (safe r \<longleftrightarrow> threats r = []))"
  using safe_iff_threats_empty [of examplePlatform "''not a url''" scannedApp scannedApp]
    reachable_scannedApp scannedApp_eval
  by simp

text \<open>
  Claim C2 says that after \<open>clearHistory\<close> and the persistence effect it triggers the
  history is empty and the key \<open>scan-history\<close> is absent from the store. The history is
  empty, and the handler does remove the key; but \<open>setHistory([])\<close> gives \<open>history\<close> a new
  array, so the effect runs after the render and stores the text \<open>[]\<close> under the key
  again. The theorem evaluates this on the state \<open>scannedApp\<close>, which holds one result.
\<close>

theorem clearHistory_key_written_again:
  "reachable scannedApp
   \<and> history scannedApp \<noteq> []
   \<and> localStorage scannedApp ''scan-history'' = Some ''[{}]''
   \<and> localStorage (clearHistory scannedApp) ''scan-history'' = None
   \<and> history (commit examplePlatform (clearHistory scannedApp)) = []
   \<and> localStorage (commit examplePlatform (clearHistory scannedApp)) ''scan-history'' = Some ''[]''"
  using reachable_scannedApp scannedApp_eval clearHistory_commit [of examplePlatform scannedApp]
  by simp




text \<open>
  Claim C4. When the string does not parse as a URL, the scan stores exactly the fixed
  result: threats \<open>["Invalid URL format"]\<close>, domain and protocol \<open>unknown\<close>, response
  time 0; nothing else of the state changes but \<open>scanning\<close>, and no error leaves the
  handler, which is a total function.
\<close>

theorem invalid_url_sentinel:
  assumes "newURL p s = None"
  shows "performSecurityChecks p s = None
   \<and> scanUrl_resume p s st =
       st\<lparr>result := Some \<lparr>url = s, timestamp = dateNow p, safe = False,
                           threats = [''Invalid URL format''],
                           details = \<lparr>protocol = ''unknown'', domain = ''unknown'',
                                      responseTime = 0, certificates = None\<rparr>\<rparr>,
          scanning := False\<rparr>
   \<and> (urlState st = s \<longrightarrow>
        result (scanUrl p st) = Some \<lparr>url = s, timestamp = dateNow p, safe = False,
                           threats = [''Invalid URL format''],
                           details = \<lparr>protocol = ''unknown'', domain = ''unknown'',
                                      responseTime = 0, certificates = None\<rparr>\<rparr>
        \<and> history (scanUrl p st) = history st)"
  using assms
  by (simp add: performSecurityChecks_def scanUrl_resume_def scanUrl_def scanUrl_start_def)

theorem invalid_url_sentinel_witness:
  "newURL examplePlatform ''not a url'' = None
   \<and> result (scanUrl examplePlatform (setUrl ''not a url'' exampleApp)) =
       Some \<lparr>url = ''not a url'', timestamp = 1700000000000, safe = False,
             threats = [''Invalid URL format''],
             details = \<lparr>protocol = ''unknown'', domain = ''unknown'',
                        responseTime = 0, certificates = None\<rparr>\<rparr>"
proof -
  have h: "newURL examplePlatform ''not a url'' = None"
    by (simp add: examplePlatform_fields exampleURL_def)
  show ?thesis
    using h invalid_url_sentinel [OF h, of "setUrl ''not a url'' exampleApp"]
    by (simp add: setUrl_def examplePlatform_fields)
qed

text \<open>
  Claim C5. When the string parses, the threats are the labels of exactly the checks that
  fire, each check evaluated on its own, in the order protocol, malware substring,
  suspicious TLD, length, special characters; \<open>http://example.xyz\<close> yields the two labels
  of the protocol and the TLD checks, and \<open>safe\<close> is false.
\<close>

theorem threats_are_fired_checks_in_order:
  assumes "newURL p s = Some u"
  shows "(\<exists>d. performSecurityChecks p s = Some
      ((if \<not> startsWith s ''https://'' then [''Insecure connection (non-HTTPS)''] else []) @
       (if includes_str s ''malware'' \<or> includes_str s ''virus''
        then [''Potential malware detected''] else []) @
       (if some suspiciousTLDs (\<lambda>tld. endsWith s tld)
        then [''Suspicious top-level domain detected''] else []) @
       (if length s > 100 then [''Unusually long URL detected''] else []) @
       (if regexTest s then [''Suspicious special characters detected''] else []), d))
   \<and> (\<exists>r. result (scanUrl_resume p s st) = Some r
        \<and> map_option fst (performSecurityChecks p s) = Some (threats r)
        \<and> (''Insecure connection (non-HTTPS)'' \<in> set (threats r)
              \<longleftrightarrow> \<not> startsWith s ''https://'')
        \<and> (''Potential malware detected'' \<in> set (threats r)
              \<longleftrightarrow> includes_str s ''malware'' \<or> includes_str s ''virus'')
        \<and> (''Suspicious top-level domain detected'' \<in> set (threats r)
              \<longleftrightarrow> some suspiciousTLDs (\<lambda>tld. endsWith s tld))
        \<and> (''Unusually long URL detected'' \<in> set (threats r) \<longleftrightarrow> length s > 100)
        \<and> (''Suspicious special characters detected'' \<in> set (threats r) \<longleftrightarrow> regexTest s))
   \<and> (s = ''http://example.xyz'' \<longrightarrow>
        (\<exists>r. result (scanUrl_resume p s st) = Some r
           \<and> threats r = [''Insecure connection (non-HTTPS)'',
                           ''Suspicious top-level domain detected'']
           \<and> safe r = False))"
proof -
  obtain ts d where pd: "performSecurityChecks p s = Some (ts, d)"
    and ts: "ts =
       (if \<not> startsWith s ''https://'' then [''Insecure connection (non-HTTPS)''] else []) @
       (if includes_str s ''malware'' \<or> includes_str s ''virus''
        then [''Potential malware detected''] else []) @
       (if some suspiciousTLDs (\<lambda>tld. endsWith s tld)
        then [''Suspicious top-level domain detected''] else []) @
       (if length s > 100 then [''Unusually long URL detected''] else []) @
       (if regexTest s then [''Suspicious special characters detected''] else [])"
    using performSecurityChecks_Some [OF assms] by blast
  obtain r where r: "result (scanUrl_resume p s st) = Some r" "threats r = ts" "safe r = (ts = [])"
    using threats_scanUrl_resume [OF pd, of st] by blast
  have one: "\<exists>d. performSecurityChecks p s = Some
      ((if \<not> startsWith s ''https://'' then [''Insecure connection (non-HTTPS)''] else []) @
       (if includes_str s ''malware'' \<or> includes_str s ''virus''
        then [''Potential malware detected''] else []) @
       (if some suspiciousTLDs (\<lambda>tld. endsWith s tld)
        then [''Suspicious top-level domain detected''] else []) @
       (if length s > 100 then [''Unusually long URL detected''] else []) @
       (if regexTest s then [''Suspicious special characters detected''] else []), d)"
    using pd ts by blast
  have two: "\<exists>r. result (scanUrl_resume p s st) = Some r
        \<and> map_option fst (performSecurityChecks p s) = Some (threats r)
        \<and> (''Insecure connection (non-HTTPS)'' \<in> set (threats r)
              \<longleftrightarrow> \<not> startsWith s ''https://'')
        \<and> (''Potential malware detected'' \<in> set (threats r)
              \<longleftrightarrow> includes_str s ''malware'' \<or> includes_str s ''virus'')
        \<and> (''Suspicious top-level domain detected'' \<in> set (threats r)
              \<longleftrightarrow> some suspiciousTLDs (\<lambda>tld. endsWith s tld))
        \<and> (''Unusually long URL detected'' \<in> set (threats r) \<longleftrightarrow> length s > 100)
        \<and> (''Suspicious special characters detected'' \<in> set (threats r) \<longleftrightarrow> regexTest s)"
    using r pd insecure_mem [OF pd] malware_mem [OF pd] tld_mem [OF pd] long_mem [OF pd]
      special_mem [OF pd]
    by simp
  have three: "s = ''http://example.xyz'' \<longrightarrow>
        (\<exists>r. result (scanUrl_resume p s st) = Some r
           \<and> threats r = [''Insecure connection (non-HTTPS)'',
                           ''Suspicious top-level domain detected'']
           \<and> safe r = False)"
  proof
    assume s: "s = ''http://example.xyz''"
    have "ts = [''Insecure connection (non-HTTPS)'', ''Suspicious top-level domain detected'']"
      unfolding ts s
      by (simp add: startsWith_def endsWith_def suspiciousTLDs_def regexTest_def
          specialChars_def)
    with r show "\<exists>r. result (scanUrl_resume p s st) = Some r
           \<and> threats r = [''Insecure connection (non-HTTPS)'',
                           ''Suspicious top-level domain detected'']
           \<and> safe r = False"
      by simp
  qed
  from one two three show ?thesis by blast
qed

theorem threats_are_fired_checks_in_order_witness:
  "newURL examplePlatform ''http://example.xyz'' \<noteq> None
   \<and> (\<exists>r. result (scanUrl_resume examplePlatform ''http://example.xyz'' exampleApp) = Some r
        \<and> threats r = [''Insecure connection (non-HTTPS)'',
                        ''Suspicious top-level domain detected'']
        \<and> safe r = False)"
proof -
  have h: "newURL examplePlatform ''http://example.xyz'' =
             Some \<lparr>URL_protocol = ''http:'', URL_hostname = ''example.xyz''\<rparr>"
    by (simp add: examplePlatform_fields exampleURL_def)
  show ?thesis
    using h threats_are_fired_checks_in_order [OF h, of exampleApp] by simp
qed

text \<open>
  Claim C6. When the string parses and does not start with \<open>https://\<close>, the threats
  include \<open>Insecure connection (non-HTTPS)\<close>.
\<close>

theorem non_https_is_insecure:
  assumes "newURL p s = Some u" and "\<not> startsWith s ''https://''"
  shows "\<exists>ts d r. performSecurityChecks p s = Some (ts, d)
           \<and> ''Insecure connection (non-HTTPS)'' \<in> set ts
           \<and> result (scanUrl_resume p s st) = Some r \<and> threats r = ts"
proof -
  obtain ts d where pd: "performSecurityChecks p s = Some (ts, d)"
    using performSecurityChecks_Some [OF assms(1)] by blast
  then have "''Insecure connection (non-HTTPS)'' \<in> set ts"
    using insecure_mem assms(2) by blast
  then show ?thesis using pd threats_scanUrl_resume [OF pd, of st] by blast
qed

theorem non_https_is_insecure_witness:
  "newURL examplePlatform ''http://example.xyz'' \<noteq> None
   \<and> \<not> startsWith ''http://example.xyz'' ''https://''
   \<and> (\<exists>ts d r. performSecurityChecks examplePlatform ''http://example.xyz'' = Some (ts, d)
           \<and> ''Insecure connection (non-HTTPS)'' \<in> set ts
           \<and> result (scanUrl_resume examplePlatform ''http://example.xyz'' exampleApp) = Some r
           \<and> threats r = ts)"
proof -
  have h: "newURL examplePlatform ''http://example.xyz'' =
             Some \<lparr>URL_protocol = ''http:'', URL_hostname = ''example.xyz''\<rparr>"
    by (simp add: examplePlatform_fields exampleURL_def)
  have n: "\<not> startsWith ''http://example.xyz'' ''https://''"
    by (simp add: startsWith_def)
  show ?thesis
    using h n non_https_is_insecure [OF h n, of exampleApp] by simp
qed

text \<open>
  Claim C7. When the string parses and ends with one of \<open>.xyz\<close>, \<open>.tk\<close>, \<open>.ml\<close>, \<open>.ga\<close>,
  \<open>.cf\<close>, the threats include \<open>Suspicious top-level domain detected\<close>.
\<close>

theorem suspicious_suffix_is_flagged:
  assumes "newURL p s = Some u"
    and "tld \<in> {''.xyz'', ''.tk'', ''.ml'', ''.ga'', ''.cf''}"
    and "endsWith s tld"
  shows "\<exists>ts d r. performSecurityChecks p s = Some (ts, d)
           \<and> ''Suspicious top-level domain detected'' \<in> set ts
           \<and> result (scanUrl_resume p s st) = Some r \<and> threats r = ts"
proof -
  obtain ts d where pd: "performSecurityChecks p s = Some (ts, d)"
    using performSecurityChecks_Some [OF assms(1)] by blast
  have "some suspiciousTLDs (\<lambda>tld. endsWith s tld)"
    using assms(2,3) unfolding some_iff suspiciousTLDs_set by blast
  then have "''Suspicious top-level domain detected'' \<in> set ts"
    using tld_mem [OF pd] by blast
  then show ?thesis using pd threats_scanUrl_resume [OF pd, of st] by blast
qed

theorem suspicious_suffix_is_flagged_witness:
  "newURL examplePlatform ''http://example.xyz'' \<noteq> None
   \<and> endsWith ''http://example.xyz'' ''.xyz''
   \<and> (\<exists>ts d r. performSecurityChecks examplePlatform ''http://example.xyz'' = Some (ts, d)
           \<and> ''Suspicious top-level domain detected'' \<in> set ts
           \<and> result (scanUrl_resume examplePlatform ''http://example.xyz'' exampleApp) = Some r
           \<and> threats r = ts)"
proof -
  have h: "newURL examplePlatform ''http://example.xyz'' =
             Some \<lparr>URL_protocol = ''http:'', URL_hostname = ''example.xyz''\<rparr>"
    by (simp add: examplePlatform_fields exampleURL_def)
  have m: "''.xyz'' \<in> {''.xyz'', ''.tk'', ''.ml'', ''.ga'', ''.cf''}"
    by simp
  have e: "endsWith ''http://example.xyz'' ''.xyz''"
    by (simp add: endsWith_def)
  show ?thesis
    using h e suspicious_suffix_is_flagged [OF h m e, of exampleApp] by simp
qed

text \<open>
  Claim C8. When the string parses, the details hold a certificate if and only if the
  string starts with \<open>https://\<close>, and the certificate then has \<open>valid = true\<close> and the
  issuer \<open>DigiCert Inc\<close>; \<open>https://example.com\<close> yields no threats, \<open>safe = true\<close> and a
  valid certificate.
\<close>

theorem certificate_iff_https:
  assumes "newURL p s = Some u"
  shows "(\<exists>ts d. performSecurityChecks p s = Some (ts, d)
            \<and> (certificates d \<noteq> None \<longleftrightarrow> startsWith s ''https://'')
            \<and> (\<forall>c. certificates d = Some c \<longrightarrow> valid c \<and> issuer c = Some ''DigiCert Inc''))
   \<and> (s = ''https://example.com'' \<longrightarrow>
        (\<exists>r c. result (scanUrl_resume p s st) = Some r \<and> threats r = [] \<and> safe r
             \<and> certificates (details r) = Some c \<and> valid c))"
proof -
  let ?ts = "(if \<not> startsWith s ''https://'' then [''Insecure connection (non-HTTPS)''] else []) @
       (if includes_str s ''malware'' \<or> includes_str s ''virus''
        then [''Potential malware detected''] else []) @
       (if some suspiciousTLDs (\<lambda>tld. endsWith s tld)
        then [''Suspicious top-level domain detected''] else []) @
       (if length s > 100 then [''Unusually long URL detected''] else []) @
       (if regexTest s then [''Suspicious special characters detected''] else [])"
  let ?d = "\<lparr>protocol = URL_protocol u, domain = URL_hostname u,
       responseTime = mathRandom p * 100 + 50,
       certificates = (if startsWith s ''https://''
                       then Some \<lparr>valid = True, issuer = Some ''DigiCert Inc'',
                                  expiryDate = Some (formatNextYear p)\<rparr>
                       else None)\<rparr>"
  have pd: "performSecurityChecks p s = Some (?ts, ?d)"
    by (rule performSecurityChecks_Some [OF assms])
  have one: "\<exists>ts d. performSecurityChecks p s = Some (ts, d)
            \<and> (certificates d \<noteq> None \<longleftrightarrow> startsWith s ''https://'')
            \<and> (\<forall>c. certificates d = Some c \<longrightarrow> valid c \<and> issuer c = Some ''DigiCert Inc'')"
    unfolding pd by auto
  have two: "s = ''https://example.com'' \<longrightarrow>
        (\<exists>r c. result (scanUrl_resume p s st) = Some r \<and> threats r = [] \<and> safe r
             \<and> certificates (details r) = Some c \<and> valid c)"
  proof
    assume s: "s = ''https://example.com''"
    have ts: "?ts = []"
      unfolding s
      by (simp add: startsWith_def endsWith_def suspiciousTLDs_def regexTest_def
          specialChars_def)
    have st: "startsWith s ''https://''"
      unfolding s by (simp add: startsWith_def)
    obtain r where r: "result (scanUrl_resume p s st) = Some r" "threats r = ?ts"
      "details r = ?d" "safe r = (?ts = [])"
      using threats_scanUrl_resume [OF pd, of st] by blast
    from r(4) ts have "safe r" by simp
    moreover from r(2) ts have "threats r = []" by simp
    moreover from r(3) st have "certificates (details r) =
        Some \<lparr>valid = True, issuer = Some ''DigiCert Inc'', expiryDate = Some (formatNextYear p)\<rparr>"
      by simp
    ultimately show "\<exists>r c. result (scanUrl_resume p s st) = Some r \<and> threats r = [] \<and> safe r
             \<and> certificates (details r) = Some c \<and> valid c"
      using r(1) by simp
  qed
  from one two show ?thesis by blast
qed

theorem certificate_iff_https_witness:
  "newURL examplePlatform ''https://example.com'' \<noteq> None
   \<and> (\<exists>r c. result (scanUrl_resume examplePlatform ''https://example.com'' exampleApp) = Some r
          \<and> threats r = [] \<and> safe r \<and> certificates (details r) = Some c \<and> valid c)"
proof -
  have h: "newURL examplePlatform ''https://example.com'' =
             Some \<lparr>URL_protocol = ''https:'', URL_hostname = ''example.com''\<rparr>"
    by (simp add: examplePlatform_fields exampleURL_def)
  show ?thesis
    using h certificate_iff_https [OF h, of exampleApp] by simp
qed

text \<open>
  Claim C9 says that a parsed URL whose hostname ends in one of the five suffixes, and
  whose full string does not end in that suffix, is not given the label
  \<open>Suspicious top-level domain detected\<close>. It fails when the full string ends in another
  of the five suffixes: the hostname of \<open>http://example.xyz/a.tk\<close> ends in \<open>.xyz\<close>, the
  string does not, and the string ends in \<open>.tk\<close>, so the label is given.
\<close>

theorem tld_check_other_suffix_counterexample:
  "newURL examplePlatform ''http://example.xyz/a.tk'' =
     Some \<lparr>URL_protocol = ''http:'', URL_hostname = ''example.xyz''\<rparr>
   \<and> endsWith ''example.xyz'' ''.xyz''
   \<and> \<not> endsWith ''http://example.xyz/a.tk'' ''.xyz''
   \<and> map_option fst (performSecurityChecks examplePlatform ''http://example.xyz/a.tk'') =
       Some [''Insecure connection (non-HTTPS)'', ''Suspicious top-level domain detected'']
   \<and> map_option threats (result (scanUrl_resume examplePlatform ''http://example.xyz/a.tk'' exampleApp)) =
       Some [''Insecure connection (non-HTTPS)'', ''Suspicious top-level domain detected'']"
  by (simp add: result_scanUrl_resume performSecurityChecks_def examplePlatform_fields
      exampleURL_def startsWith_def endsWith_def suspiciousTLDs_def regexTest_def
      specialChars_def push_def Let_def)

text \<open>
  Claim C9, amended. The check reads the raw string only: when the string parses, the
  label \<open>Suspicious top-level domain detected\<close> is among the threats if and only if the
  string ends in one of the five suffixes; so a URL whose hostname ends in one of them and
  whose full string ends in none of the five is not given the label.
\<close>

theorem tld_check_reads_raw_string:
  assumes "newURL p s = Some u"
  shows "\<exists>ts d r. performSecurityChecks p s = Some (ts, d)
      \<and> result (scanUrl_resume p s st) = Some r \<and> threats r = ts
      \<and> (''Suspicious top-level domain detected'' \<in> set ts
           \<longleftrightarrow> (\<exists>t\<in>{''.xyz'', ''.tk'', ''.ml'', ''.ga'', ''.cf''}. endsWith s t))
      \<and> (tld \<in> {''.xyz'', ''.tk'', ''.ml'', ''.ga'', ''.cf''}
           \<and> endsWith (URL_hostname u) tld
           \<and> (\<forall>t\<in>{''.xyz'', ''.tk'', ''.ml'', ''.ga'', ''.cf''}. \<not> endsWith s t)
          \<longrightarrow> ''Suspicious top-level domain detected'' \<notin> set ts)"
proof -
  obtain ts d where pd: "performSecurityChecks p s = Some (ts, d)"
    using performSecurityChecks_Some [OF assms] by blast
  have iff: "''Suspicious top-level domain detected'' \<in> set ts
           \<longleftrightarrow> (\<exists>t\<in>{''.xyz'', ''.tk'', ''.ml'', ''.ga'', ''.cf''}. endsWith s t)"
    using tld_mem [OF pd] unfolding some_iff suspiciousTLDs_set .
  obtain r where "result (scanUrl_resume p s st) = Some r" "threats r = ts"
    using threats_scanUrl_resume [OF pd, of st] by blast
  with pd iff show ?thesis by blast
qed

theorem tld_check_reads_raw_string_witness:
  "newURL examplePlatform ''http://example.xyz/'' =
     Some \<lparr>URL_protocol = ''http:'', URL_hostname = ''example.xyz''\<rparr>
   \<and> endsWith ''example.xyz'' ''.xyz''
   \<and> \<not> endsWith ''http://example.xyz/'' ''.xyz''
   \<and> \<not> endsWith ''http://example.xyz/'' ''.tk''
   \<and> \<not> endsWith ''http://example.xyz/'' ''.ml''
   \<and> \<not> endsWith ''http://example.xyz/'' ''.ga''
   \<and> \<not> endsWith ''http://example.xyz/'' ''.cf''
   \<and> (\<exists>r. result (scanUrl_resume examplePlatform ''http://example.xyz/'' exampleApp) = Some r
        \<and> ''Suspicious top-level domain detected'' \<notin> set (threats r))"
proof -
  have h: "newURL examplePlatform ''http://example.xyz/'' =
             Some \<lparr>URL_protocol = ''http:'', URL_hostname = ''example.xyz''\<rparr>"
    by (simp add: examplePlatform_fields exampleURL_def)
  have e: "endsWith ''example.xyz'' ''.xyz''"
    by (simp add: endsWith_def)
  have n: "\<forall>t\<in>{''.xyz'', ''.tk'', ''.ml'', ''.ga'', ''.cf''}. \<not> endsWith ''http://example.xyz/'' t"
    by (simp add: endsWith_def)
  show ?thesis
    using h e n tld_check_reads_raw_string [OF h, of exampleApp "''.xyz''"] by auto
qed

text \<open>
  Claim C10. The threats and the \<open>safe\<close> flag do not depend on the random draw: for any
  two values of \<open>Math.random()\<close> the classifier and the scan give the same threats and the
  same flag, and the two scan results are equal once \<open>responseTime\<close> is set aside.
\<close>

theorem threats_independent_of_random:
  "map_option fst (performSecurityChecks (p\<lparr>mathRandom := x\<rparr>) s)
     = map_option fst (performSecurityChecks (p\<lparr>mathRandom := y\<rparr>) s)
   \<and> map_option threats (result (scanUrl_resume (p\<lparr>mathRandom := x\<rparr>) s st))
     = map_option threats (result (scanUrl_resume (p\<lparr>mathRandom := y\<rparr>) s st))
   \<and> map_option safe (result (scanUrl_resume (p\<lparr>mathRandom := x\<rparr>) s st))
     = map_option safe (result (scanUrl_resume (p\<lparr>mathRandom := y\<rparr>) s st))
   \<and> map_option (\<lambda>r. r\<lparr>details := (details r)\<lparr>responseTime := 0\<rparr>\<rparr>)
        (result (scanUrl_resume (p\<lparr>mathRandom := x\<rparr>) s st))
     = map_option (\<lambda>r. r\<lparr>details := (details r)\<lparr>responseTime := 0\<rparr>\<rparr>)
        (result (scanUrl_resume (p\<lparr>mathRandom := y\<rparr>) s st))"
  by (simp add: result_scanUrl_resume performSecurityChecks_def Let_def split: option.splits)

end
